theory Spec2Isabelle
  imports Complex_Main "HOL-Library.Word" "HOL-Library.Monad_Syntax"
begin

unbundle bit_operations_syntax

section \<open>Conventions of the embedding\<close>

text \<open>
  The development embeds the polling engine of \<^verbatim>\<open>web_dashboard.py\<close>.

  \<^item> Python \<^verbatim>\<open>int\<close> is \<^typ>\<open>int\<close>. Python \<^verbatim>\<open>float\<close> is idealised as an exact
    rational number (\<^typ>\<open>rat\<close>): the rounding error, overflow and underflow of binary
    floating point are outside the model. \<^verbatim>\<open>round(x, n)\<close> is rounding to the nearest
    multiple of \<open>10\<^sup>-\<^sup>n\<close>, ties to the even multiple.
  \<^item> A \<^verbatim>\<open>datetime\<close> is the number of seconds since a fixed origin (\<^typ>\<open>rat\<close>); the string
    stored by \<^verbatim>\<open>isoformat()\<close> is \<open>Iso t\<close>, and a stored string that
    \<^verbatim>\<open>datetime.fromisoformat\<close> rejects is \<open>Malformed\<close>. A missing value and the empty
    string, both falsy in Python, are \<open>None\<close>.
  \<^item> The register read \<^verbatim>\<open>read_regs(80, 40)\<close> is modelled by its result: \<open>None\<close> or the
    list of 16-bit registers.
  \<^item> Files are state: the baseline file and the state file are components that the
    functions take and return. Opening and writing the baseline file is assumed to work;
    the faults of writing the state file are an explicit input of \<open>save_state\<close>.
\<close>

section \<open>Numbers\<close>

definition round_half_even :: "rat \<Rightarrow> int" where
  "round_half_even x =
     (let fl = \<lfloor>x\<rfloor>; d = x - of_int fl
      in if d < 1 / 2 then fl
         else if 1 / 2 < d then fl + 1
         else if even fl then fl else fl + 1)"

text \<open>\<^verbatim>\<open>round(x, n)\<close> for a float \<open>x\<close> and \<open>n \<ge> 0\<close>.\<close>

definition py_round :: "rat \<Rightarrow> nat \<Rightarrow> rat" where
  "py_round x n = of_int (round_half_even (x * 10 ^ n)) / 10 ^ n"

text \<open>\<^verbatim>\<open>int(x)\<close> for a float: truncation towards zero.\<close>

definition py_int :: "rat \<Rightarrow> int" where
  "py_int x = (if 0 \<le> x then \<lfloor>x\<rfloor> else \<lceil>x\<rceil>)"

text \<open>\<^verbatim>\<open>10 ** sf\<close>: an integer for \<open>sf \<ge> 0\<close>, the float \<open>10\<^sup>s\<^sup>f\<close> otherwise.\<close>

definition pow10 :: "int \<Rightarrow> rat" where
  "pow10 sf = (if 0 \<le> sf then 10 ^ nat sf else 1 / 10 ^ nat (- sf))"

section \<open>Data\<close>

type_synonym register = "16 word"

datatype isostr = Iso rat | Malformed

text \<open>The dictionary returned by \<^verbatim>\<open>read_legacy_block\<close>.\<close>

record sample =
  data_ac_voltage :: rat
  data_grid_freq_hz :: rat
  data_inverter_temp_c :: rat
  data_power_w :: int
  data_energy_lifetime_wh :: rat
  data_energy_today_wh :: rat
  data_status_code :: int

text \<open>
  The content of \<^verbatim>\<open>energy_baseline.json\<close>. \<open>Corrupt\<close> is a file that \<^verbatim>\<open>json.load\<close>
  rejects or that is not a JSON object; \<open>Doc d w\<close> is an object whose \<^verbatim>\<open>"day"\<close> is
  the string \<open>d\<close> (\<open>None\<close>: no such key, or not a string) and whose \<^verbatim>\<open>"wh"\<close> is absent
  (\<open>WhAbsent\<close>), a number (\<open>WhNum\<close>) or a value that cannot be subtracted from a
  number (\<open>WhBad\<close>). A file that does not exist is \<open>None\<close>.
\<close>

datatype wh_field = WhAbsent | WhNum rat | WhBad

datatype baseline_doc = Corrupt | Doc "string option" wh_field

type_synonym baseline_file = "baseline_doc option"

section \<open>Register decoding and the daily baseline\<close>

text \<open>\<^verbatim>\<open>regs[i]\<close>: \<open>None\<close> is the \<^verbatim>\<open>IndexError\<close>.\<close>

definition reg :: "register list \<Rightarrow> nat \<Rightarrow> int option" where
  "reg regs i = (if i < length regs then Some (uint (regs ! i)) else None)"

definition scale_factor :: "int \<Rightarrow> int" where
  "scale_factor sf_reg = (if sf_reg < 32768 then sf_reg else sf_reg - 65536)"

text \<open>Lines 161 to 174: today's energy from the stored baseline.\<close>

definition baseline_energy_today :: "string \<Rightarrow> rat \<Rightarrow> baseline_file \<Rightarrow> rat" where
  "baseline_energy_today today e_wh bf =
     (case bf of
        None \<Rightarrow> 0
      | Some Corrupt \<Rightarrow> 0
      | Some (Doc d w) \<Rightarrow>
          if d = Some today then
            (case w of
               WhAbsent \<Rightarrow> max 0 (e_wh - e_wh)
             | WhNum b \<Rightarrow> max 0 (e_wh - b)
             | WhBad \<Rightarrow> 0)
          else 0)"

text \<open>Lines 176 to 192: the baseline file is written when it is absent or of another day.\<close>

definition baseline_update :: "string \<Rightarrow> rat \<Rightarrow> baseline_file \<Rightarrow> baseline_file" where
  "baseline_update today e_wh bf =
     (case bf of
        None \<Rightarrow> Some (Doc (Some today) (WhNum e_wh))
      | Some Corrupt \<Rightarrow> bf
      | Some (Doc d w) \<Rightarrow>
          if d \<noteq> Some today then Some (Doc (Some today) (WhNum e_wh)) else bf)"

text \<open>The \<^verbatim>\<open>try\<close> block of \<^verbatim>\<open>read_legacy_block\<close>; \<open>None\<close> is the decode error.\<close>

definition decode_block ::
  "string \<Rightarrow> register list \<Rightarrow> baseline_file \<Rightarrow> (sample \<times> baseline_file) option" where
  "decode_block today regs bf =
     do {
        r0 \<leftarrow> reg regs 0;
        r6 \<leftarrow> reg regs 6;
        r26 \<leftarrow> reg regs 26;
        r4 \<leftarrow> reg regs 4;
        r8 \<leftarrow> reg regs 8;
        low \<leftarrow> reg regs 14;
        high \<leftarrow> reg regs 15;
        sf_reg \<leftarrow> reg regs 16;
        let v = py_round (of_int r0 / 10) 1;
            f = py_round (of_int r6 / 100) 2;
            t = py_round (of_int r26 / 10) 1;
            p = r4;
            code = r8;
            sf = scale_factor sf_reg;
            e_raw = push_bit 16 low OR high;
            e_wh = of_int e_raw * pow10 sf;
            energy_today_wh = baseline_energy_today today e_wh bf
        in Some (\<lparr>data_ac_voltage = v, data_grid_freq_hz = f, data_inverter_temp_c = t,
                   data_power_w = p, data_energy_lifetime_wh = e_wh,
                   data_energy_today_wh = energy_today_wh, data_status_code = code\<rparr>,
                 baseline_update today e_wh bf)
      }"

definition read_legacy_block ::
  "string \<Rightarrow> register list option \<Rightarrow> baseline_file \<Rightarrow> sample option \<times> baseline_file" where
  "read_legacy_block today regs_read bf =
     (case regs_read of
        None \<Rightarrow> (None, bf)
      | Some regs \<Rightarrow>
          if regs = [] then (None, bf)
          else (case decode_block today regs bf of
                  None \<Rightarrow> (None, bf)
                | Some (data, bf') \<Rightarrow> (Some data, bf')))"

section \<open>The shared state\<close>

text \<open>An entry of \<^verbatim>\<open>state["records"]\<close>.\<close>

record hist_record =
  rec_timestamp :: isostr
  rec_power_w :: int
  rec_energy_wh :: int

text \<open>
  The dictionary \<^verbatim>\<open>state\<close>, one field for each key; the keys \<^verbatim>\<open>_last_sample_ts\<close>,
  \<^verbatim>\<open>_last_energy_wh\<close> and \<^verbatim>\<open>_midnight\<close> lose their leading underscore.
\<close>

record state =
  debug :: bool
  dry_run :: bool
  inverter_connected :: bool
  last_upload :: "isostr option"
  uptime_minutes_today :: rat
  records :: "hist_record list"
  ac_voltage :: "rat option"
  grid_freq_hz :: "rat option"
  inverter_temp_c :: "rat option"
  energy_today_kwh :: rat
  energy_total_kwh :: "rat option"
  peak_power_w :: int
  status_code :: "int option"
  status_text :: string
  status_class :: string
  dq_text :: string
  dq_class :: string
  last_sample_ts :: "isostr option"
  last_energy_wh :: rat
  midnight :: "isostr option"

text \<open>
  The configuration read from the environment. \<open>PV_CREDS\<close> says that both
  \<^verbatim>\<open>PV_API_KEY\<close> and \<^verbatim>\<open>PV_SYSTEM_ID\<close> are non-empty. The source takes
  \<^verbatim>\<open>max(30, ...)\<close> for \<open>POLL_SECONDS\<close>; the functions below take any interval.
\<close>

record config =
  POLL_SECONDS :: int
  DRY_RUN :: bool
  DEBUG :: bool
  PV_CREDS :: bool

text \<open>The module-level value of \<^verbatim>\<open>state\<close>.\<close>

definition initial_state :: "config \<Rightarrow> state" where
  "initial_state cfg =
     \<lparr>debug = DEBUG cfg, dry_run = DRY_RUN cfg, inverter_connected = False,
      last_upload = None, uptime_minutes_today = 0, records = [],
      ac_voltage = None, grid_freq_hz = None, inverter_temp_c = None,
      energy_today_kwh = 0, energy_total_kwh = None, peak_power_w = 0,
      status_code = None, status_text = ''Unknown'', status_class = ''muted'',
      dq_text = ''DATA OK'', dq_class = ''ok'', last_sample_ts = None,
      last_energy_wh = 0, midnight = None\<rparr>"

section \<open>Helpers\<close>

definition decode_status :: "int \<Rightarrow> string \<times> string" where
  "decode_status code =
     (if code = 0 then (''Off'', ''muted'')
      else if code = 1 then (''Sleep'', ''sleep'')
      else if code = 4 then (''ON'', ''ok'')
      else if code = 5 then (''Fault'', ''error'')
      else if code = 91 then (''ON'', ''ok'')
      else if code = 92 then (''Sleep'', ''sleep'')
      else (''Unknown'', ''muted''))"

definition detect_night :: "rat option \<Rightarrow> bool \<Rightarrow> string \<times> string \<times> bool" where
  "detect_night v conn =
     (if \<not> conn \<or> (case v of None \<Rightarrow> True | Some x \<Rightarrow> x < 100)
      then (''Night'', ''night'', True)
      else (''ON'', ''ok'', False))"

text \<open>\<^verbatim>\<open>now.isoformat(timespec="seconds")\<close>: the microseconds are dropped.\<close>

definition isoformat_seconds :: "rat \<Rightarrow> isostr" where
  "isoformat_seconds now = Iso (of_int \<lfloor>now\<rfloor>)"

text \<open>
  \<^verbatim>\<open>pvoutput_addstatus\<close>: \<open>post_ok\<close> says that the request returned status 200 with a
  body that does not start with \<^verbatim>\<open>ERROR\<close>, and raised nothing.
\<close>

definition pvoutput_addstatus :: "config \<Rightarrow> bool \<Rightarrow> bool" where
  "pvoutput_addstatus cfg post_ok =
     (if DRY_RUN cfg then True
      else if \<not> PV_CREDS cfg then False
      else post_ok)"

section \<open>Saving the state\<close>

text \<open>
  The state file holds the serialisation of a state (\<open>Whole s\<close>) or only the first
  \<open>k\<close> characters of it (\<open>Truncated s k\<close>); \<open>None\<close> is no file. The faults of a save:
  \<^verbatim>\<open>open(STATE_PATH, "w")\<close> raises; \<^verbatim>\<open>json.dump\<close> or \<^verbatim>\<open>flush\<close> raises when \<open>k\<close>
  characters have reached the file; \<^verbatim>\<open>os.fsync\<close> raises.
\<close>

datatype 'a file_content = Whole 'a | Truncated 'a nat

type_synonym state_file = "state file_content option"

datatype io_fault = NoFault | OpenFails | WriteFails nat | FsyncFails

text \<open>
  The body of the \<^verbatim>\<open>try\<close> in \<^verbatim>\<open>save_state\<close>: the file after it, and whether it raised.
  Opening the file for writing empties it; the document is then written into the file
  itself.
\<close>

definition write_state_file :: "io_fault \<Rightarrow> state \<Rightarrow> state_file \<Rightarrow> state_file \<times> bool" where
  "write_state_file fault tmp sf =
     (case fault of
        OpenFails \<Rightarrow> (sf, True)
      | WriteFails k \<Rightarrow> (Some (Truncated tmp k), True)
      | FsyncFails \<Rightarrow> (Some (Whole tmp), True)
      | NoFault \<Rightarrow> (Some (Whole tmp), False))"

text \<open>\<^verbatim>\<open>save_state\<close>: the file after it, and whether the warning was logged.\<close>

definition save_state :: "io_fault \<Rightarrow> state \<Rightarrow> state_file \<Rightarrow> state_file \<times> bool" where
  "save_state fault s sf =
     (let tmp = s;
          (sf', raised) = write_state_file fault tmp sf
      in if raised then (sf', True) else (sf', False))"

section \<open>The poll cycle\<close>

text \<open>What one iteration of the loop reads from its environment.\<close>

record cycle_env =
  env_now :: rat
  env_midnight :: rat
  env_today :: string
  env_regs :: "register list option"
  env_post_ok :: bool
  env_save_fault :: io_fault

text \<open>
  Lines 219 to 230. \<open>rollover_due\<close> is the condition of line 222; \<open>None\<close> is the
  exception of \<^verbatim>\<open>datetime.fromisoformat\<close>, which is raised outside the \<^verbatim>\<open>try\<close>.
\<close>

definition rollover_due :: "rat \<Rightarrow> state \<Rightarrow> bool option" where
  "rollover_due m s =
     (case midnight s of
        None \<Rightarrow> Some True
      | Some Malformed \<Rightarrow> None
      | Some (Iso last_midnight) \<Rightarrow> Some (last_midnight < m))"

definition midnight_check ::
  "rat \<Rightarrow> state \<Rightarrow> baseline_file \<Rightarrow> (state \<times> baseline_file) option" where
  "midnight_check m s bf =
     (case rollover_due m s of
        None \<Rightarrow> None
      | Some True \<Rightarrow>
          Some (s\<lparr>midnight := Some (Iso m), uptime_minutes_today := 0, records := []\<rparr>, None)
      | Some False \<Rightarrow> Some (s, bf))"

text \<open>Lines 265 to 278: the new value of \<^verbatim>\<open>uptime_minutes_today\<close>.\<close>

definition uptime_step :: "int \<Rightarrow> rat \<Rightarrow> bool \<Rightarrow> int \<Rightarrow> isostr option \<Rightarrow> rat \<Rightarrow> rat" where
  "uptime_step poll now is_night p prev_ts_str uptime =
     (if \<not> is_night \<and> 5 < p \<and> prev_ts_str \<noteq> None then
        (case prev_ts_str of
           Some (Iso prev_ts) \<Rightarrow>
             let elapsed_min = (now - prev_ts) / 60;
                 elapsed_min = min elapsed_min (of_int (poll * 2) / 60)
             in if 0 < elapsed_min then py_round (uptime + elapsed_min) 1 else uptime
         | _ \<Rightarrow> uptime)
      else uptime)"

text \<open>Lines 234 to 282: the new state, and \<^verbatim>\<open>is_night\<close>.\<close>

definition account :: "int \<Rightarrow> rat \<Rightarrow> sample \<Rightarrow> state \<Rightarrow> state \<times> bool" where
  "account poll now data s =
     (let v = data_ac_voltage data;
          f = data_grid_freq_hz data;
          t = data_inverter_temp_c data;
          p = data_power_w data;
          e_wh_life = data_energy_lifetime_wh data;
          e_wh_today = data_energy_today_wh data;
          code = data_status_code data;
          prev_ts_str = last_sample_ts s;
          (st_txt, st_cls) = decode_status code;
          (night_txt, night_cls, is_night) = detect_night (Some v) True;
          (st_txt, st_cls) = (if is_night then (night_txt, night_cls) else (st_txt, st_cls));
          s1 = s\<lparr>ac_voltage := (if 150 \<le> v \<and> v \<le> 270 then Some v else None),
                 grid_freq_hz := Some f,
                 inverter_temp_c := Some t,
                 energy_today_kwh := py_round (e_wh_today / 1000) 3,
                 energy_total_kwh := Some (py_round (e_wh_life / 1000) 3),
                 status_code := Some code,
                 status_text := st_txt,
                 status_class := st_cls,
                 peak_power_w := max (peak_power_w s) p,
                 last_energy_wh := e_wh_today,
                 inverter_connected := \<not> is_night\<rparr>;
          s2 = s1\<lparr>uptime_minutes_today :=
                    uptime_step poll now is_night p prev_ts_str (uptime_minutes_today s1)\<rparr>
      in (s2\<lparr>last_sample_ts := Some (Iso now)\<rparr>, is_night))"

text \<open>Lines 298 to 300.\<close>

definition append_record :: "'a \<Rightarrow> 'a list \<Rightarrow> 'a list" where
  "append_record r rs = (if 288 \<le> length rs then tl rs else rs) @ [r]"

text \<open>Lines 305 to 311.\<close>

definition offline_update :: "state \<Rightarrow> state" where
  "offline_update s =
     s\<lparr>inverter_connected := False, status_text := ''Offline'', status_class := ''muted'',
       ac_voltage := None, grid_freq_hz := None, inverter_temp_c := None\<rparr>"

text \<open>Lines 315 to 318; \<open>None\<close> is the exception of \<^verbatim>\<open>datetime.fromisoformat\<close>.\<close>

definition sample_age :: "rat \<Rightarrow> state \<Rightarrow> rat option" where
  "sample_age now s =
     (case last_sample_ts s of
        None \<Rightarrow> Some 9999
      | Some Malformed \<Rightarrow> None
      | Some (Iso ts) \<Rightarrow> Some (now - ts))"

text \<open>Lines 319 to 326.\<close>

definition grade :: "int \<Rightarrow> rat \<Rightarrow> bool \<Rightarrow> string \<times> string" where
  "grade poll age_s conn =
     (if \<not> conn then (''OFFLINE'', ''dq_off'')
      else if age_s < of_int poll * (3 / 2) then (''LIVE'', ''dq_ok'')
      else if age_s < of_int poll * 3 then (''STALE'', ''dq_warn'')
      else (''NO DATA'', ''dq_off''))"

text \<open>Lines 314 to 329.\<close>

definition quality_grading :: "int \<Rightarrow> rat \<Rightarrow> state \<Rightarrow> state option" where
  "quality_grading poll now s =
     (case sample_age now s of
        None \<Rightarrow> None
      | Some age_s \<Rightarrow>
          let (dq_text', dq_class') = grade poll age_s (inverter_connected s)
          in Some (s\<lparr>dq_text := dq_text', dq_class := dq_class'\<rparr>))"

text \<open>
  How an iteration ends: with a sample, without one, in the handler of line 330
  (\<open>PollError\<close>), or with an exception that leaves the loop (\<open>Crashed\<close>).
\<close>

datatype outcome = Sampled | NoSample | PollError | Crashed

text \<open>Lines 285 to 289.\<close>

definition upload_step :: "config \<Rightarrow> cycle_env \<Rightarrow> bool \<Rightarrow> state \<Rightarrow> state" where
  "upload_step cfg env is_night s =
     (if \<not> is_night then
        (if pvoutput_addstatus cfg (env_post_ok env)
         then s\<lparr>last_upload := Some (isoformat_seconds (env_now env))\<rparr>
         else s)
      else s)"

text \<open>Lines 234 to 301: the cycle after a successful read, before the grading.\<close>

definition sampled_path :: "config \<Rightarrow> cycle_env \<Rightarrow> sample \<Rightarrow> state \<Rightarrow> state" where
  "sampled_path cfg env data s =
     (let (s1, is_night) = account (POLL_SECONDS cfg) (env_now env) data s;
          s2 = upload_step cfg env is_night s1;
          r = \<lparr>rec_timestamp = isoformat_seconds (env_now env),
               rec_power_w = data_power_w data,
               rec_energy_wh = py_int (data_energy_today_wh data)\<rparr>
      in s2\<lparr>records := append_record r (records s2)\<rparr>)"

text \<open>One iteration of the loop of \<^verbatim>\<open>poller_loop\<close>.\<close>

definition poll_cycle ::
  "config \<Rightarrow> cycle_env \<Rightarrow> state \<Rightarrow> baseline_file \<Rightarrow> state_file
     \<Rightarrow> outcome \<times> state \<times> baseline_file \<times> state_file" where
  "poll_cycle cfg env s bf sf =
     (case midnight_check (env_midnight env) s bf of
        None \<Rightarrow> (Crashed, s, bf, sf)
      | Some (s0, bf0) \<Rightarrow>
          (case read_legacy_block (env_today env) (env_regs env) bf0 of
             (Some data, bf1) \<Rightarrow>
               let s3 = sampled_path cfg env data s0;
                   sf1 = fst (save_state (env_save_fault env) s3 sf)
               in (case quality_grading (POLL_SECONDS cfg) (env_now env) s3 of
                     None \<Rightarrow> (PollError, s3, bf1, sf1)
                   | Some s4 \<Rightarrow> (Sampled, s4, bf1, sf1))
           | (None, bf1) \<Rightarrow>
               let s1 = offline_update s0;
                   sf1 = fst (save_state (env_save_fault env) s1 sf)
               in (case quality_grading (POLL_SECONDS cfg) (env_now env) s1 of
                     None \<Rightarrow> (PollError, s1, bf1, sf1)
                   | Some s4 \<Rightarrow> (NoSample, s4, bf1, sf1))))"

section \<open>Derived notions and example inputs\<close>

text \<open>
  A register block of a producing inverter: 230.1 V, 1500 W, 50.00 Hz, status 4,
  lifetime counter \<open>(1 << 16) | 57920 = 123456\<close> with scale factor 0, 35.1 degrees.
\<close>

definition example_regs :: "register list" where
  "example_regs = [2301, 0, 0, 0, 1500, 0, 5000, 0, 4, 0, 0, 0, 0, 0, 1, 57920, 0, 0, 0, 0,
                   0, 0, 0, 0, 0, 0, 351]"

text \<open>The same block after a reboot of the device: the lifetime counter reads 400.\<close>

definition rollback_regs :: "register list" where
  "rollback_regs = [2301, 0, 0, 0, 1500, 0, 5000, 0, 4, 0, 0, 0, 0, 0, 0, 400, 0, 0, 0, 0,
                    0, 0, 0, 0, 0, 0, 351]"

text \<open>The components of the result of a poll cycle.\<close>

abbreviation cycle_outcome :: "outcome \<times> state \<times> baseline_file \<times> state_file \<Rightarrow> outcome" where
  "cycle_outcome r \<equiv> fst r"

abbreviation cycle_state :: "outcome \<times> state \<times> baseline_file \<times> state_file \<Rightarrow> state" where
  "cycle_state r \<equiv> fst (snd r)"

abbreviation cycle_baseline ::
  "outcome \<times> state \<times> baseline_file \<times> state_file \<Rightarrow> baseline_file" where
  "cycle_baseline r \<equiv> fst (snd (snd r))"

abbreviation cycle_state_file ::
  "outcome \<times> state \<times> baseline_file \<times> state_file \<Rightarrow> state_file" where
  "cycle_state_file r \<equiv> snd (snd (snd r))"

text \<open>
  A configuration with the default interval, and a cycle five minutes after the midnight
  at second 86400 that reads the example block.
\<close>

definition example_config :: config where
  "example_config = \<lparr>POLL_SECONDS = 300, DRY_RUN = True, DEBUG = False, PV_CREDS = False\<rparr>"

definition example_env :: cycle_env where
  "example_env =
     \<lparr>env_now = 86700, env_midnight = 86400, env_today = ''2024-06-01'',
      env_regs = Some example_regs, env_post_ok = False, env_save_fault = NoFault\<rparr>"

text \<open>
  A state left by the day before: rollover date at second 0, a peak of 2000 W, 412
  minutes of uptime, one record, and a last sample taken at second 86400.
\<close>

definition yesterday_state :: state where
  "yesterday_state =
     (initial_state example_config)
       \<lparr>peak_power_w := 2000, uptime_minutes_today := 412,
        records := [\<lparr>rec_timestamp = Iso 86400, rec_power_w = 0, rec_energy_wh = 9000\<rparr>],
        midnight := Some (Iso 0), last_sample_ts := Some (Iso 86400)\<rparr>"



text \<open>The buffer after appending the records \<open>rs\<close>, oldest first, to the buffer \<open>buf\<close>.\<close>

definition appends :: "'a list \<Rightarrow> 'a list \<Rightarrow> 'a list" where
  "appends rs buf = foldl (\<lambda>b r. append_record r b) buf rs"


text \<open>
  A state of the current day, whose last sample was taken at its midnight, and the
  example cycle 301 seconds after that sample.
\<close>

definition today_state :: state where
  "today_state = yesterday_state\<lparr>midnight := Some (Iso 86400), uptime_minutes_today := 0\<rparr>"


text \<open>The example cycle in which the write of the state file fails at once.\<close>

definition failing_save_env :: cycle_env where
  "failing_save_env = example_env\<lparr>env_save_fault := WriteFails 0\<rparr>"

section \<open>Arithmetic of the decoder\<close>











lemma reg_Some: "i < length regs \<Longrightarrow> reg regs i = Some (uint (regs ! i))"
  by (simp add: reg_def)


section \<open>Register decoding\<close>



section \<open>The daily baseline\<close>

lemma read_legacy_block_SomeD:
  assumes "read_legacy_block today rd bf = (Some data, bf')"
  shows "\<exists>regs. rd = Some regs \<and> decode_block today regs bf = Some (data, bf')"
  using assms
  by (auto simp: read_legacy_block_def split: option.splits if_splits)

lemma decode_block_SomeD:
  assumes "decode_block today regs bf = Some (data, bf')"
  shows "data_energy_today_wh data = baseline_energy_today today (data_energy_lifetime_wh data) bf
       \<and> bf' = baseline_update today (data_energy_lifetime_wh data) bf"
  using assms
  by (auto simp: decode_block_def Let_def split: Option.bind_splits)

lemma read_legacy_block_baseline:
  assumes "read_legacy_block today rd bf = (Some data, bf')"
  shows "data_energy_today_wh data = baseline_energy_today today (data_energy_lifetime_wh data) bf"
    and "bf' = baseline_update today (data_energy_lifetime_wh data) bf"
  using read_legacy_block_SomeD [OF assms] decode_block_SomeD by blast+



lemma rollback_regs_read:
  "read_legacy_block ''2024-06-01'' (Some rollback_regs) bf =
     (Some \<lparr>data_ac_voltage = 2301 / 10, data_grid_freq_hz = 50,
            data_inverter_temp_c = 351 / 10, data_power_w = 1500,
            data_energy_lifetime_wh = 400,
            data_energy_today_wh = baseline_energy_today ''2024-06-01'' 400 bf,
            data_status_code = 4\<rparr>,
      baseline_update ''2024-06-01'' 400 bf)"
  by (simp add: read_legacy_block_def decode_block_def reg_def rollback_regs_def Let_def
      py_round_def round_half_even_def scale_factor_def pow10_def)


lemma example_regs_read:
  "read_legacy_block ''2024-06-01'' (Some example_regs) bf =
     (Some \<lparr>data_ac_voltage = 2301 / 10, data_grid_freq_hz = 50,
            data_inverter_temp_c = 351 / 10, data_power_w = 1500,
            data_energy_lifetime_wh = 123456,
            data_energy_today_wh = baseline_energy_today ''2024-06-01'' 123456 bf,
            data_status_code = 4\<rparr>,
      baseline_update ''2024-06-01'' 123456 bf)"
  by (simp add: read_legacy_block_def decode_block_def reg_def example_regs_def Let_def
      py_round_def round_half_even_def scale_factor_def pow10_def)

text \<open>
  Claim C2, as stated, fails. With the baseline \<open>{2024-06-01, 1000}\<close> stored and a reading
  of 400 Wh on the same day, the call returns 0 Wh for today, and the baseline file still
  holds 1000: it is not replaced by \<open>{2024-06-01, 400}\<close>.
\<close>

theorem rollback_counterexample:
  "fst (read_legacy_block ''2024-06-01'' (Some rollback_regs)
          (Some (Doc (Some ''2024-06-01'') (WhNum 1000))))
     = Some \<lparr>data_ac_voltage = 2301 / 10, data_grid_freq_hz = 50,
            data_inverter_temp_c = 351 / 10, data_power_w = 1500,
            data_energy_lifetime_wh = 400, data_energy_today_wh = 0,
            data_status_code = 4\<rparr>
   \<and> snd (read_legacy_block ''2024-06-01'' (Some rollback_regs)
          (Some (Doc (Some ''2024-06-01'') (WhNum 1000))))
     = Some (Doc (Some ''2024-06-01'') (WhNum 1000))
   \<and> snd (read_legacy_block ''2024-06-01'' (Some rollback_regs)
          (Some (Doc (Some ''2024-06-01'') (WhNum 1000))))
     \<noteq> Some (Doc (Some ''2024-06-01'') (WhNum 400))"
  by (simp add: rollback_regs_read baseline_energy_today_def baseline_update_def)

text \<open>
  Claim C2, amended. When the lifetime counter of a sample lies below the baseline stored
  for the same day, the call returns 0 Wh for today and leaves the baseline file as it
  is: the file is written only when it is absent or of another day.
\<close>

theorem rollback_returns_zero_keeps_baseline:
  assumes "read_legacy_block today rd (Some (Doc (Some today) (WhNum b))) = (Some data, bf')"
    and "data_energy_lifetime_wh data < b"
  shows "data_energy_today_wh data = 0 \<and> bf' = Some (Doc (Some today) (WhNum b))"
  using read_legacy_block_baseline [OF assms(1)] assms(2)
  by (simp add: baseline_energy_today_def baseline_update_def)

theorem rollback_returns_zero_keeps_baseline_witness:
  "read_legacy_block ''2024-06-01'' (Some rollback_regs)
      (Some (Doc (Some ''2024-06-01'') (WhNum 1000)))
     = (Some \<lparr>data_ac_voltage = 2301 / 10, data_grid_freq_hz = 50,
            data_inverter_temp_c = 351 / 10, data_power_w = 1500,
            data_energy_lifetime_wh = 400, data_energy_today_wh = 0,
            data_status_code = 4\<rparr>,
        Some (Doc (Some ''2024-06-01'') (WhNum 1000)))
   \<and> (400 :: rat) < 1000"
proof -
  let ?d = "\<lparr>data_ac_voltage = 2301 / 10, data_grid_freq_hz = 50,
            data_inverter_temp_c = 351 / 10, data_power_w = 1500,
            data_energy_lifetime_wh = 400,
            data_energy_today_wh = baseline_energy_today ''2024-06-01'' 400
               (Some (Doc (Some ''2024-06-01'') (WhNum 1000))),
            data_status_code = 4\<rparr>"
  have r: "read_legacy_block ''2024-06-01'' (Some rollback_regs)
      (Some (Doc (Some ''2024-06-01'') (WhNum 1000)))
     = (Some ?d, baseline_update ''2024-06-01'' 400 (Some (Doc (Some ''2024-06-01'') (WhNum 1000))))"
    by (rule rollback_regs_read)
  have l: "data_energy_lifetime_wh ?d < 1000" by simp
  show ?thesis
    using rollback_returns_zero_keeps_baseline [OF r l] r by simp
qed



section \<open>The steps of a poll cycle\<close>

lemma snd_account: "snd (account poll now data s) = (data_ac_voltage data < 100)"
  by (simp add: account_def Let_def detect_night_def split: prod.splits)

lemma account_fields:
  "ac_voltage (fst (account poll now data s)) =
     (if 150 \<le> data_ac_voltage data \<and> data_ac_voltage data \<le> 270
      then Some (data_ac_voltage data) else None)"
  "inverter_connected (fst (account poll now data s)) = (\<not> data_ac_voltage data < 100)"
  "peak_power_w (fst (account poll now data s)) = max (peak_power_w s) (data_power_w data)"
  "records (fst (account poll now data s)) = records s"
  "midnight (fst (account poll now data s)) = midnight s"
  "last_sample_ts (fst (account poll now data s)) = Some (Iso now)"
  "uptime_minutes_today (fst (account poll now data s)) =
     uptime_step poll now (data_ac_voltage data < 100) (data_power_w data)
       (last_sample_ts s) (uptime_minutes_today s)"
  "status_text (fst (account poll now data s)) =
     (if data_ac_voltage data < 100 then ''Night''
      else fst (decode_status (data_status_code data)))"
  by (simp_all add: account_def Let_def detect_night_def split: prod.splits)

lemma upload_step_fields:
  "ac_voltage (upload_step cfg env n s) = ac_voltage s"
  "inverter_connected (upload_step cfg env n s) = inverter_connected s"
  "peak_power_w (upload_step cfg env n s) = peak_power_w s"
  "records (upload_step cfg env n s) = records s"
  "midnight (upload_step cfg env n s) = midnight s"
  "last_sample_ts (upload_step cfg env n s) = last_sample_ts s"
  "uptime_minutes_today (upload_step cfg env n s) = uptime_minutes_today s"
  "status_text (upload_step cfg env n s) = status_text s"
  by (simp_all add: upload_step_def)

lemma sampled_path_fields:
  "ac_voltage (sampled_path cfg env data s) =
     (if 150 \<le> data_ac_voltage data \<and> data_ac_voltage data \<le> 270
      then Some (data_ac_voltage data) else None)"
  "inverter_connected (sampled_path cfg env data s) = (\<not> data_ac_voltage data < 100)"
  "peak_power_w (sampled_path cfg env data s) = max (peak_power_w s) (data_power_w data)"
  "records (sampled_path cfg env data s) =
     append_record \<lparr>rec_timestamp = isoformat_seconds (env_now env),
                     rec_power_w = data_power_w data,
                     rec_energy_wh = py_int (data_energy_today_wh data)\<rparr> (records s)"
  "midnight (sampled_path cfg env data s) = midnight s"
  "last_sample_ts (sampled_path cfg env data s) = Some (Iso (env_now env))"
  "uptime_minutes_today (sampled_path cfg env data s) =
     uptime_step (POLL_SECONDS cfg) (env_now env) (data_ac_voltage data < 100) (data_power_w data)
       (last_sample_ts s) (uptime_minutes_today s)"
  "status_text (sampled_path cfg env data s) =
     (if data_ac_voltage data < 100 then ''Night''
      else fst (decode_status (data_status_code data)))"
  by (simp_all add: sampled_path_def Let_def case_prod_beta upload_step_fields account_fields)

lemma quality_grading_sampled:
  "quality_grading poll (env_now env) (sampled_path cfg env data s) =
     Some ((sampled_path cfg env data s)
        \<lparr>dq_text := fst (grade poll 0 (\<not> data_ac_voltage data < 100)),
         dq_class := snd (grade poll 0 (\<not> data_ac_voltage data < 100))\<rparr>)"
  by (simp add: quality_grading_def sample_age_def sampled_path_fields case_prod_beta)

lemma poll_cycle_sampled:
  assumes "midnight_check (env_midnight env) s bf = Some (s0, bf0)"
    and "read_legacy_block (env_today env) (env_regs env) bf0 = (Some data, bf1)"
  shows "poll_cycle cfg env s bf sf =
     (Sampled,
      (sampled_path cfg env data s0)
        \<lparr>dq_text := fst (grade (POLL_SECONDS cfg) 0 (\<not> data_ac_voltage data < 100)),
         dq_class := snd (grade (POLL_SECONDS cfg) 0 (\<not> data_ac_voltage data < 100))\<rparr>,
      bf1,
      fst (save_state (env_save_fault env) (sampled_path cfg env data s0) sf))"
  using assms by (simp add: poll_cycle_def Let_def quality_grading_sampled)

lemma poll_cycle_no_sample:
  assumes "midnight_check (env_midnight env) s bf = Some (s0, bf0)"
    and "read_legacy_block (env_today env) (env_regs env) bf0 = (None, bf1)"
  shows "poll_cycle cfg env s bf sf =
     (case quality_grading (POLL_SECONDS cfg) (env_now env) (offline_update s0) of
        None \<Rightarrow> (PollError, offline_update s0, bf1,
                   fst (save_state (env_save_fault env) (offline_update s0) sf))
      | Some s4 \<Rightarrow> (NoSample, s4, bf1,
                   fst (save_state (env_save_fault env) (offline_update s0) sf)))"
  using assms by (simp add: poll_cycle_def Let_def)




section \<open>Voltage plausibility\<close>




section \<open>Night classification\<close>



section \<open>The history buffer\<close>

lemma length_append_record: "length buf \<le> 288 \<Longrightarrow> length (append_record r buf) \<le> 288"
  by (simp add: append_record_def)

lemma appends_Nil: "appends [] buf = buf"
  by (simp add: appends_def)

lemma appends_Cons: "appends (r # rs) buf = appends rs (append_record r buf)"
  by (simp add: appends_def)

lemma appends_drop:
  "length buf \<le> 288 \<Longrightarrow> appends rs buf = drop (length buf + length rs - 288) (buf @ rs)"
proof (induction rs arbitrary: buf)
  case Nil
  then show ?case by (simp add: appends_Nil)
next
  case (Cons r rs)
  have le: "length (append_record r buf) \<le> 288"
    using Cons.prems by (rule length_append_record)
  show ?case
  proof (cases "length buf = 288")
    case True
    then have ne: "buf \<noteq> []" by auto
    have ar: "append_record r buf = tl buf @ [r]" using True by (simp add: append_record_def)
    have "appends (r # rs) buf = drop (length rs) (tl buf @ r # rs)"
      using Cons.IH [OF le] True by (simp add: appends_Cons ar)
    also have "tl buf @ r # rs = drop 1 (buf @ r # rs)"
      using ne by (cases buf) simp_all
    also have "drop (length rs) (drop 1 (buf @ r # rs)) = drop (length rs + 1) (buf @ r # rs)"
      by (simp only: drop_drop)
    also have "length rs + 1 = length buf + length (r # rs) - 288"
      using True by simp
    finally show ?thesis .
  next
    case False
    with Cons.prems have lt: "length buf < 288" by simp
    then have ar: "append_record r buf = buf @ [r]" by (simp add: append_record_def)
    show ?thesis
      using Cons.IH [OF le] lt by (simp add: appends_Cons ar)
  qed
qed

section \<open>The midnight rollover\<close>

lemma quality_grading_fields:
  assumes "quality_grading poll now s = Some s'"
  shows "midnight s' = midnight s" "peak_power_w s' = peak_power_w s"
    "records s' = records s" "uptime_minutes_today s' = uptime_minutes_today s"
    "last_sample_ts s' = last_sample_ts s" "inverter_connected s' = inverter_connected s"
  using assms
  by (auto simp: quality_grading_def case_prod_beta split: option.splits)

lemma offline_update_fields:
  "midnight (offline_update s) = midnight s" "peak_power_w (offline_update s) = peak_power_w s"
  "records (offline_update s) = records s"
  "uptime_minutes_today (offline_update s) = uptime_minutes_today s"
  "last_sample_ts (offline_update s) = last_sample_ts s"
  "inverter_connected (offline_update s) = False"
  by (simp_all add: offline_update_def)

lemma poll_cycle_no_sample_fields:
  assumes mc: "midnight_check (env_midnight env) s bf = Some (s0, bf0)"
    and rd: "read_legacy_block (env_today env) (env_regs env) bf0 = (None, bf1)"
  shows "midnight (cycle_state (poll_cycle cfg env s bf sf)) = midnight s0"
    "peak_power_w (cycle_state (poll_cycle cfg env s bf sf)) = peak_power_w s0"
    "records (cycle_state (poll_cycle cfg env s bf sf)) = records s0"
    "uptime_minutes_today (cycle_state (poll_cycle cfg env s bf sf)) = uptime_minutes_today s0"
    "last_sample_ts (cycle_state (poll_cycle cfg env s bf sf)) = last_sample_ts s0"
    "inverter_connected (cycle_state (poll_cycle cfg env s bf sf)) = False"
  by (auto simp: poll_cycle_no_sample [OF mc rd] offline_update_fields
      quality_grading_fields split: option.splits)

lemma poll_cycle_sampled_fields:
  assumes mc: "midnight_check (env_midnight env) s bf = Some (s0, bf0)"
    and rd: "read_legacy_block (env_today env) (env_regs env) bf0 = (Some data, bf1)"
  shows "midnight (cycle_state (poll_cycle cfg env s bf sf)) = midnight s0"
    "peak_power_w (cycle_state (poll_cycle cfg env s bf sf))
       = max (peak_power_w s0) (data_power_w data)"
    "records (cycle_state (poll_cycle cfg env s bf sf)) =
       append_record \<lparr>rec_timestamp = isoformat_seconds (env_now env),
                       rec_power_w = data_power_w data,
                       rec_energy_wh = py_int (data_energy_today_wh data)\<rparr> (records s0)"
    "uptime_minutes_today (cycle_state (poll_cycle cfg env s bf sf)) =
       uptime_step (POLL_SECONDS cfg) (env_now env) (data_ac_voltage data < 100)
         (data_power_w data) (last_sample_ts s0) (uptime_minutes_today s0)"
  by (simp_all add: poll_cycle_sampled [OF mc rd] sampled_path_fields)

lemma midnight_check_due:
  assumes "midnight s = None \<or> (\<exists>t. midnight s = Some (Iso t) \<and> t < m)"
  shows "midnight_check m s bf =
     Some (s\<lparr>midnight := Some (Iso m), uptime_minutes_today := 0, records := []\<rparr>, None)"
  using assms by (auto simp: midnight_check_def rollover_due_def)





lemma yesterday_due:
  "midnight yesterday_state = None
   \<or> (\<exists>t. midnight yesterday_state = Some (Iso t) \<and> t < env_midnight example_env)"
  by (simp add: yesterday_state_def example_env_def)

lemma example_env_read:
  "read_legacy_block (env_today example_env) (env_regs example_env) None =
     (Some \<lparr>data_ac_voltage = 2301 / 10, data_grid_freq_hz = 50,
            data_inverter_temp_c = 351 / 10, data_power_w = 1500,
            data_energy_lifetime_wh = 123456, data_energy_today_wh = 0,
            data_status_code = 4\<rparr>,
      Some (Doc (Some ''2024-06-01'') (WhNum 123456)))"
  by (simp add: example_env_def example_regs_read baseline_energy_today_def baseline_update_def)





section \<open>Data quality\<close>





section \<open>Uptime\<close>

















section \<open>Saving the state\<close>

lemma save_state_cases:
  "save_state NoFault s sf = (Some (Whole s), False)"
  "save_state OpenFails s sf = (sf, True)"
  "save_state (WriteFails k) s sf = (Some (Truncated s k), True)"
  "save_state FsyncFails s sf = (Some (Whole s), True)"
  by (simp_all add: save_state_def write_state_file_def)

lemma sampled_path_fault:
  "sampled_path cfg (env\<lparr>env_save_fault := f\<rparr>) data s = sampled_path cfg env data s"
  by (simp add: sampled_path_def upload_step_def Let_def case_prod_beta)

lemma poll_cycle_fault_independent:
  "cycle_outcome (poll_cycle cfg (env\<lparr>env_save_fault := f\<rparr>) s bf sf)
     = cycle_outcome (poll_cycle cfg env s bf sf)"
  "cycle_state (poll_cycle cfg (env\<lparr>env_save_fault := f\<rparr>) s bf sf)
     = cycle_state (poll_cycle cfg env s bf sf)"
  "cycle_baseline (poll_cycle cfg (env\<lparr>env_save_fault := f\<rparr>) s bf sf)
     = cycle_baseline (poll_cycle cfg env s bf sf)"
  by (simp_all add: poll_cycle_def Let_def sampled_path_fault
      split: option.split prod.split)

text \<open>
  Claim C9, as stated, fails. The save writes into the state file itself. When the
  write fails before anything is written, the file that held the complete state of the
  day before is left empty: neither the prior content nor a complete document. The same
  happens inside a poll cycle, which still ends with its sample.
\<close>

theorem save_in_place_counterexample:
  "save_state (WriteFails 0) today_state (Some (Whole yesterday_state))
     = (Some (Truncated today_state 0), True)
   \<and> Some (Truncated today_state 0) \<noteq> Some (Whole yesterday_state)
   \<and> cycle_outcome (poll_cycle example_config failing_save_env yesterday_state None
        (Some (Whole yesterday_state))) = Sampled
   \<and> cycle_state_file (poll_cycle example_config failing_save_env yesterday_state None
        (Some (Whole yesterday_state))) \<noteq> Some (Whole yesterday_state)"
proof -
  have e: "failing_save_env = example_env\<lparr>env_save_fault := WriteFails 0\<rparr>"
    by (rule failing_save_env_def)
  have mc: "midnight_check (env_midnight failing_save_env) yesterday_state None =
     Some (yesterday_state\<lparr>midnight := Some (Iso (env_midnight failing_save_env)),
             uptime_minutes_today := 0, records := []\<rparr>, None)"
    using yesterday_due by (intro midnight_check_due) (simp add: e)
  have rd: "read_legacy_block (env_today failing_save_env) (env_regs failing_save_env) None =
     (Some \<lparr>data_ac_voltage = 2301 / 10, data_grid_freq_hz = 50,
            data_inverter_temp_c = 351 / 10, data_power_w = 1500,
            data_energy_lifetime_wh = 123456, data_energy_today_wh = 0,
            data_status_code = 4\<rparr>,
      Some (Doc (Some ''2024-06-01'') (WhNum 123456)))"
    using example_env_read by (simp add: e)
  have f: "env_save_fault failing_save_env = WriteFails 0" by (simp add: e)
  show ?thesis
    by (simp add: poll_cycle_sampled [OF mc rd] save_state_cases f)
qed

text \<open>
  Claim C9, amended. A save without fault leaves the complete new document in the state
  file and logs nothing. Every fault is logged and swallowed: the outcome, the state and
  the baseline file of the poll cycle are those of the cycle without fault. The prior
  content of the state file remains when the file cannot be opened; after a failed write
  the file holds the part of the new document written so far, and after a failed
  \<^verbatim>\<open>fsync\<close> the whole new document.
\<close>

theorem save_state_swallows:
  "save_state NoFault s sf = (Some (Whole s), False)
   \<and> save_state OpenFails s sf = (sf, True)
   \<and> save_state (WriteFails k) s sf = (Some (Truncated s k), True)
   \<and> save_state FsyncFails s sf = (Some (Whole s), True)
   \<and> cycle_outcome (poll_cycle cfg (env\<lparr>env_save_fault := f\<rparr>) s bf sf)
       = cycle_outcome (poll_cycle cfg (env\<lparr>env_save_fault := NoFault\<rparr>) s bf sf)
   \<and> cycle_state (poll_cycle cfg (env\<lparr>env_save_fault := f\<rparr>) s bf sf)
       = cycle_state (poll_cycle cfg (env\<lparr>env_save_fault := NoFault\<rparr>) s bf sf)
   \<and> cycle_baseline (poll_cycle cfg (env\<lparr>env_save_fault := f\<rparr>) s bf sf)
       = cycle_baseline (poll_cycle cfg (env\<lparr>env_save_fault := NoFault\<rparr>) s bf sf)
   \<and> cycle_state_file (poll_cycle cfg (env\<lparr>env_save_fault := OpenFails\<rparr>) s bf sf) = sf"
proof -
  have o: "cycle_state_file (poll_cycle cfg (env\<lparr>env_save_fault := OpenFails\<rparr>) s bf sf) = sf"
    by (simp add: poll_cycle_def Let_def save_state_cases split: option.split prod.split)
  show ?thesis
    by (simp add: save_state_cases poll_cycle_fault_independent o)
qed

section \<open>The bound of the history buffer\<close>

lemma midnight_check_records:
  assumes "midnight_check m s bf = Some (s0, bf0)"
  shows "length (records s0) \<le> length (records s)"
  using assms
  by (auto simp: midnight_check_def split: option.splits bool.splits)

lemma poll_cycle_records_bound:
  assumes "length (records s) \<le> 288"
  shows "length (records (cycle_state (poll_cycle cfg env s bf sf))) \<le> 288"
proof (cases "midnight_check (env_midnight env) s bf")
  case None
  with assms show ?thesis by (simp add: poll_cycle_def)
next
  case (Some a)
  then obtain s0 bf0 where mc: "midnight_check (env_midnight env) s bf = Some (s0, bf0)"
    by (cases a) auto
  from midnight_check_records [OF mc] assms have le: "length (records s0) \<le> 288" by simp
  show ?thesis
  proof (cases "read_legacy_block (env_today env) (env_regs env) bf0")
    case (Pair d bf1)
    with le show ?thesis
      by (cases d)
         (simp_all add: poll_cycle_no_sample_fields [OF mc] poll_cycle_sampled_fields [OF mc]
          length_append_record)
  qed
qed

text \<open>
  Claim C8. Starting from the empty buffer, any sequence of appends leaves at most 288
  records, namely the last 288 of the appended records in the order of their appending;
  an append to a buffer of at most 288 records leaves at most 288; an append at length
  288 or more removes the oldest record first; after 289 appends all records but the
  first remain, in order, the first being absent when the records are distinct; and a
  poll cycle that starts with at most 288 records ends with at most 288.
\<close>

theorem history_bounded_fifo:
  "length (appends rs []) \<le> 288
   \<and> appends rs [] = drop (length rs - 288) rs
   \<and> (length buf \<le> 288 \<longrightarrow> length (append_record r buf) \<le> 288)
   \<and> (288 \<le> length buf \<longrightarrow> append_record r buf = tl buf @ [r])
   \<and> (length rs = 289 \<longrightarrow> appends rs [] = tl rs
        \<and> (distinct rs \<longrightarrow> hd rs \<notin> set (appends rs [])))
   \<and> (length (records s) \<le> 288 \<longrightarrow>
        length (records (cycle_state (poll_cycle cfg env s bf sf))) \<le> 288)"
proof -
  have d: "appends rs [] = drop (length rs - 288) rs"
    using appends_drop [of "[]" rs] by simp
  have t: "appends rs [] = tl rs" if "length rs = 289"
    using that by (simp add: d drop_Suc)
  have h: "hd rs \<notin> set (appends rs [])" if "length rs = 289" "distinct rs"
  proof -
    from that(1) obtain x xs where rs: "rs = x # xs" by (cases rs) auto
    have "set (appends rs []) = set xs" using t [OF that(1)] rs by simp
    with that(2) rs show ?thesis by simp
  qed
  show ?thesis
    using d t h poll_cycle_records_bound [of s cfg env bf sf] by (simp add: append_record_def)
qed

theorem history_bounded_fifo_witness:
  "length (appends [0 ..< 289] []) \<le> 288
   \<and> length (map Suc [0 ..< 288]) \<le> 288
   \<and> length (append_record 289 (map Suc [0 ..< 288])) \<le> 288
   \<and> append_record 289 (map Suc [0 ..< 288]) = tl (map Suc [0 ..< 288]) @ [289]
   \<and> length [0 ..< 289] = 289 \<and> distinct [0 ..< 289]
   \<and> appends [0 ..< 289] [] = [1 ..< 289]
   \<and> 0 \<notin> set (appends [0 ..< 289] [])
   \<and> length (records yesterday_state) \<le> 288
   \<and> length (records (cycle_state
        (poll_cycle example_config example_env yesterday_state None None))) \<le> 288"
proof -
  have tl: "tl [0 ..< 289] = [1 ..< 289]" by (simp add: upt_rec [of 0])
  have hd: "hd [0 ..< 289] = 0" by (simp add: upt_rec [of 0])
  have y: "length (records yesterday_state) \<le> 288" by (simp add: yesterday_state_def)
  show ?thesis
    using history_bounded_fifo [of "[0 ..< 289]" "map Suc [0 ..< 288]" 289 yesterday_state
        example_config example_env None None] y
    by (simp add: tl hd)
qed

end
